theory Spec2Isabelle
  imports Main "HOL-Library.Word"
begin

unbundle bit_operations_syntax

section \<open>Machine types of the Go source\<close>

text \<open>
  The package \<open>core\<close> (file \<open>core/voxelgrid.go\<close>) works on Go's \<open>uint\<close>, taken here at
  its 64-bit width, and on \<open>float32\<close>. A \<open>float32\<close> is modelled by its IEEE-754 binary32
  bit pattern, so that equality of two modelled values is bit identity.
\<close>

type_synonym uint = "64 word"
type_synonym int64 = "64 word"
type_synonym float32 = "32 word"

text \<open>\<open>type Voxel float32\<close>\<close>

type_synonym Voxel = float32

subsection \<open>Reading a binary32 value\<close>

definition f32_sign :: "float32 \<Rightarrow> bool" where
  "f32_sign f = bit f 31"

definition f32_expo :: "float32 \<Rightarrow> nat" where
  "f32_expo f = unat (take_bit 8 (drop_bit 23 f))"

definition f32_frac :: "float32 \<Rightarrow> nat" where
  "f32_frac f = unat (take_bit 23 f)"

text \<open>
  The magnitude of a value counted in units of \<open>2 ^ -149\<close>, the smallest positive
  binary32 number: every finite binary32 value is a whole number of such units. For the
  exponent field 255 with fraction 0 (an infinity) the same formula gives \<open>2 ^ 277\<close>, above
  every finite magnitude, which puts the infinities at the two ends of the order.
\<close>

definition f32_units :: "float32 \<Rightarrow> nat" where
  "f32_units f =
     (if f32_expo f = 0 then f32_frac f
      else (2 ^ 23 + f32_frac f) * 2 ^ (f32_expo f - 1))"

definition f32_key :: "float32 \<Rightarrow> int" where
  "f32_key f = (if f32_sign f then - int (f32_units f) else int (f32_units f))"

definition f32_nan :: "float32 \<Rightarrow> bool" where
  "f32_nan f = (f32_expo f = 255 \<and> f32_frac f \<noteq> 0)"

definition f32_inf :: "float32 \<Rightarrow> bool" where
  "f32_inf f = (f32_expo f = 255 \<and> f32_frac f = 0)"

definition f32_finite :: "float32 \<Rightarrow> bool" where
  "f32_finite f = (f32_expo f < 255)"

text \<open>Go's comparisons \<open>x < y\<close>, \<open>x > y\<close>, \<open>x == y\<close> on \<open>float32\<close>: false when an operand is
  a NaN; the two zeros compare equal.\<close>

definition f32_lt :: "float32 \<Rightarrow> float32 \<Rightarrow> bool" where
  "f32_lt x y = (\<not> f32_nan x \<and> \<not> f32_nan y \<and> f32_key x < f32_key y)"

definition f32_gt :: "float32 \<Rightarrow> float32 \<Rightarrow> bool" where
  "f32_gt x y = f32_lt y x"

definition f32_eq :: "float32 \<Rightarrow> float32 \<Rightarrow> bool" where
  "f32_eq x y = (\<not> f32_nan x \<and> \<not> f32_nan y \<and> f32_key x = f32_key y)"

definition f32_le :: "float32 \<Rightarrow> float32 \<Rightarrow> bool" where
  "f32_le x y = (\<not> f32_nan x \<and> \<not> f32_nan y \<and> f32_key x \<le> f32_key y)"

text \<open>The constants the source writes: \<open>0\<close>, \<open>0.5\<close>, \<open>1\<close>; and the bit patterns that package
  \<open>math32\<close> returns for \<open>NaN()\<close> and \<open>Inf(sign)\<close>.\<close>

definition f32_0 :: float32 where "f32_0 = 0x00000000"
definition f32_half :: float32 where "f32_half = 0x3F000000"
definition f32_1 :: float32 where "f32_1 = 0x3F800000"
definition uvnan :: float32 where "uvnan = 0x7FE00000"
definition uvinf :: float32 where "uvinf = 0x7F800000"
definition uvneginf :: float32 where "uvneginf = 0xFF800000"

subsection \<open>Building a binary32 value: rounding to nearest, ties to even\<close>

definition f32_pack :: "bool \<Rightarrow> nat \<Rightarrow> nat \<Rightarrow> float32" where
  "f32_pack s e m = (if s then 0x80000000 else 0) + push_bit 23 (word_of_nat e) + word_of_nat m"

definition round_half_even :: "nat \<Rightarrow> nat \<Rightarrow> nat" where
  "round_half_even n d =
     (let q = n div d; r = n mod d
      in if 2 * r < d then q
         else if d < 2 * r then q + 1
         else if even q then q else q + 1)"

fun bit_length :: "nat \<Rightarrow> nat" where
  "bit_length n = (if n = 0 then 0 else Suc (bit_length (n div 2)))"

declare bit_length.simps [simp del]

text \<open>
  \<open>f32_round s n d\<close> is the binary32 value nearest to the exact magnitude \<open>n / d\<close> units
  (with \<open>d > 0\<close>), signed by \<open>s\<close>: the quotient is cut to 24 significant bits, a tie goes
  to the even neighbour, and a result past the largest finite value is an infinity.
\<close>

definition f32_round :: "bool \<Rightarrow> nat \<Rightarrow> nat \<Rightarrow> float32" where
  "f32_round s n d =
     (let p = bit_length (n div d) - 24;
          q = round_half_even n (d * 2 ^ p)
      in if q < 2 ^ 23 then f32_pack s 0 q
         else if q < 2 ^ 24 then
           (if 255 \<le> p + 1 then f32_pack s 255 0 else f32_pack s (p + 1) (q - 2 ^ 23))
         else
           (if 255 \<le> p + 2 then f32_pack s 255 0 else f32_pack s (p + 2) 0))"

subsection \<open>Arithmetic and conversions\<close>

text \<open>
  Which NaN (sign and payload) an arithmetic operation produces depends on the processor;
  the model returns \<open>uvnan\<close>, and no statement below depends on that choice.
\<close>

definition f32_mul :: "float32 \<Rightarrow> float32 \<Rightarrow> float32" where
  "f32_mul x y =
     (let s = (f32_sign x \<noteq> f32_sign y)
      in if f32_nan x \<or> f32_nan y then uvnan
         else if f32_inf x \<or> f32_inf y then
           (if f32_units x = 0 \<or> f32_units y = 0 then uvnan else f32_pack s 255 0)
         else f32_round s (f32_units x * f32_units y) (2 ^ 149))"

definition f32_div :: "float32 \<Rightarrow> float32 \<Rightarrow> float32" where
  "f32_div x y =
     (let s = (f32_sign x \<noteq> f32_sign y)
      in if f32_nan x \<or> f32_nan y then uvnan
         else if f32_inf x then (if f32_inf y then uvnan else f32_pack s 255 0)
         else if f32_inf y then f32_pack s 0 0
         else if f32_units y = 0 then
           (if f32_units x = 0 then uvnan else f32_pack s 255 0)
         else f32_round s (f32_units x * 2 ^ 149) (f32_units y))"

text \<open>The conversion \<open>float32(u)\<close> of a \<open>uint\<close>.\<close>

definition f32_of_uint :: "uint \<Rightarrow> float32" where
  "f32_of_uint u = f32_round False (unat u * 2 ^ 149) 1"

text \<open>
  The conversion \<open>uint(f)\<close> of a \<open>float32\<close> drops the fraction. Where the result does not
  fit (a NaN, an infinity, a value of \<open>-1\<close> or below, a value of \<open>2 ^ 64\<close> or above) Go
  does not panic and leaves the result to the implementation: the function \<open>other\<close> stands
  for that choice.
\<close>

definition uint_of_f32 :: "(float32 \<Rightarrow> uint) \<Rightarrow> float32 \<Rightarrow> uint" where
  "uint_of_f32 other f =
     (if f32_nan f \<or> f32_inf f then other f
      else let t = f32_units f div 2 ^ 149
           in if t = 0 then 0
              else if f32_sign f \<or> 2 ^ 64 \<le> t then other f
              else word_of_nat t)"

subsection \<open>The functions of package \<open>math32\<close> that the source calls\<close>

text \<open>
  \<open>github.com/chewxy/math32\<close> is a dependency, not part of the repository; its functions
  are modelled after their documented behaviour (they are the \<open>float32\<close> counterparts of
  Go's \<open>math\<close> package, special cases included).
\<close>

definition math32_Signbit :: "float32 \<Rightarrow> bool" where
  "math32_Signbit x = f32_sign x"

definition math32_IsNaN :: "float32 \<Rightarrow> bool" where
  "math32_IsNaN f = f32_nan f"

definition math32_IsInf :: "float32 \<Rightarrow> int \<Rightarrow> bool" where
  "math32_IsInf f sign = (f32_inf f \<and> (0 \<le> sign \<and> \<not> f32_sign f \<or> sign \<le> 0 \<and> f32_sign f))"

text \<open>\<open>Abs(x)\<close>: the value with the sign bit cleared.\<close>

definition math32_Abs :: "float32 \<Rightarrow> float32" where
  "math32_Abs x = x AND 0x7FFFFFFF"

text \<open>\<open>Max(x, y)\<close> and \<open>Min(x, y)\<close>, with the special cases in their documented order:
  \<open>Max(x, +Inf) = +Inf\<close>, \<open>Max(x, NaN) = NaN\<close>, \<open>Max(+0, -0) = +0\<close>; \<open>Min(x, -Inf) = -Inf\<close>,
  \<open>Min(x, NaN) = NaN\<close>, \<open>Min(-0, +0) = -0\<close>.\<close>

definition math32_Max :: "float32 \<Rightarrow> float32 \<Rightarrow> float32" where
  "math32_Max x y =
     (if math32_IsInf x 1 \<or> math32_IsInf y 1 then uvinf
      else if math32_IsNaN x \<or> math32_IsNaN y then uvnan
      else if f32_eq x f32_0 \<and> f32_eq x y then (if math32_Signbit x then y else x)
      else if f32_gt x y then x else y)"

definition math32_Min :: "float32 \<Rightarrow> float32 \<Rightarrow> float32" where
  "math32_Min x y =
     (if math32_IsInf x (-1) \<or> math32_IsInf y (-1) then uvneginf
      else if math32_IsNaN x \<or> math32_IsNaN y then uvnan
      else if f32_eq x f32_0 \<and> f32_eq x y then (if math32_Signbit x then x else y)
      else if f32_lt x y then x else y)"

text \<open>\<open>Ceil(x)\<close>: the least integral value not below \<open>x\<close>; a zero, an infinity and a NaN
  are returned as they are; a value in \<open>(-1, 0)\<close> gives the negative zero.\<close>

definition math32_Ceil :: "float32 \<Rightarrow> float32" where
  "math32_Ceil x =
     (if f32_nan x \<or> f32_inf x \<or> f32_units x = 0 then x
      else if f32_sign x then f32_round True ((f32_units x div 2 ^ 149) * 2 ^ 149) 1
      else f32_round False (((f32_units x + 2 ^ 149 - 1) div 2 ^ 149) * 2 ^ 149) 1)"

section \<open>The voxel grid of \<open>core/voxelgrid.go\<close>\<close>

text \<open>
  A panic ends the call: every function that can panic returns \<open>Inl\<close> of the fault, or
  \<open>Inr\<close> of its result. The two panics the source raises itself carry the numbers of
  their message; the others are raised by the Go runtime.
\<close>

datatype fault =
    CoordinateExceeds uint uint uint uint uint uint
  | IndexExceeds uint
  | IndexOutOfRange nat nat
  | IntegerDivideByZero
  | MakeSliceLenOutOfRange

record VoxelGrid =
  resolution :: uint
  counts :: "uint \<times> uint \<times> uint"
  voxels :: "Voxel list"

text \<open>
  What Go leaves to the implementation: the result of \<open>uint(f)\<close> for a \<open>float32\<close> that
  does not fit, and the longest slice that \<open>make\<close> still allocates.
\<close>

record platform =
  uint_of_other :: "float32 \<Rightarrow> uint"
  make_limit :: nat

definition NewVoxelGrid ::
    "platform \<Rightarrow> float32 \<Rightarrow> float32 \<Rightarrow> float32 \<Rightarrow> uint \<Rightarrow> fault + VoxelGrid" where
  "NewVoxelGrid pf width height depth res =
     (let w = uint_of_f32 (uint_of_other pf)
                (math32_Ceil (math32_Abs (f32_mul width (f32_of_uint res))));
          h = uint_of_f32 (uint_of_other pf)
                (math32_Ceil (math32_Abs (f32_mul height (f32_of_uint res))));
          d = uint_of_f32 (uint_of_other pf)
                (math32_Ceil (math32_Abs (f32_mul depth (f32_of_uint res))));
          n = w * h * d
      in if make_limit pf < unat n then Inl MakeSliceLenOutOfRange
         else Inr \<lparr>resolution = res, counts = (w, h, d), voxels = replicate (unat n) f32_0\<rparr>)"

definition getIndex :: "VoxelGrid \<Rightarrow> uint \<Rightarrow> uint \<Rightarrow> uint \<Rightarrow> fault + uint" where
  "getIndex vg x y z =
     (case counts vg of (w, h, d) \<Rightarrow>
        if w \<le> x \<or> h \<le> y \<or> d \<le> z then Inl (CoordinateExceeds x y z w h d)
        else Inr ((w * h * z) + (w * y) + x))"

text \<open>The source's \<open>divmod\<close> (named \<open>divmod_uint\<close> here, since HOL has a \<open>divmod\<close> of its own):
  Go panics on an integer division by zero.\<close>

definition divmod_uint :: "uint \<Rightarrow> uint \<Rightarrow> fault + (uint \<times> uint)" where
  "divmod_uint numerator denominator =
     (if denominator = 0 then Inl IntegerDivideByZero
      else Inr (numerator div denominator, numerator mod denominator))"

definition getCoordinate :: "VoxelGrid \<Rightarrow> uint \<Rightarrow> fault + (uint \<times> uint \<times> uint)" where
  "getCoordinate vg index =
     (if word_of_nat (length (voxels vg)) < index then Inl (IndexExceeds index)
      else case counts vg of (c0, c1, c2) \<Rightarrow>
        (case divmod_uint index c2 of
           Inl e \<Rightarrow> Inl e
         | Inr (zquo, z) \<Rightarrow>
             (case divmod_uint zquo c1 of
                Inl e \<Rightarrow> Inl e
              | Inr (yquo, y) \<Rightarrow>
                  if c0 = 0 then Inl IntegerDivideByZero
                  else Inr (yquo mod c0, y, z))))"

definition Get :: "VoxelGrid \<Rightarrow> uint \<Rightarrow> uint \<Rightarrow> uint \<Rightarrow> fault + Voxel" where
  "Get vg x y z =
     (case getIndex vg x y z of
        Inl e \<Rightarrow> Inl e
      | Inr i \<Rightarrow>
          if unat i < length (voxels vg) then Inr (voxels vg ! unat i)
          else Inl (IndexOutOfRange (unat i) (length (voxels vg))))"

definition Set :: "VoxelGrid \<Rightarrow> uint \<Rightarrow> uint \<Rightarrow> uint \<Rightarrow> Voxel \<Rightarrow> fault + VoxelGrid" where
  "Set vg x y z vox =
     (case getIndex vg x y z of
        Inl e \<Rightarrow> Inl e
      | Inr i \<Rightarrow>
          if unat i < length (voxels vg) then Inr (vg\<lparr>voxels := (voxels vg)[unat i := vox]\<rparr>)
          else Inl (IndexOutOfRange (unat i) (length (voxels vg))))"

text \<open>Go's builtin \<open>copy(dst, src)\<close> overwrites the first \<open>min(len(dst), len(src))\<close>
  elements of \<open>dst\<close>.\<close>

definition copy_builtin :: "'a list \<Rightarrow> 'a list \<Rightarrow> 'a list" where
  "copy_builtin dst src =
     (let n = min (length dst) (length src) in take n src @ drop n dst)"

text \<open>\<open>Copy\<close> builds \<open>&VoxelGrid{counts: vg.counts}\<close>: the fields it does not name hold
  their zero values, resolution \<open>0\<close> and the \<open>nil\<close> slice.\<close>

definition Copy :: "VoxelGrid \<Rightarrow> VoxelGrid" where
  "Copy vg =
     (let newGrid = \<lparr>resolution = 0, counts = counts vg, voxels = []\<rparr>
      in newGrid\<lparr>voxels := copy_builtin (voxels newGrid) (voxels vg)\<rparr>)"

text \<open>The loops \<open>for i := range vg.voxels\<close> run over the indices of the slice in
  ascending order.\<close>

fun Fill_loop :: "Voxel \<Rightarrow> nat list \<Rightarrow> Voxel list \<Rightarrow> Voxel list" where
  "Fill_loop v [] vs = vs"
| "Fill_loop v (i # js) vs = Fill_loop v js (vs[i := v])"

definition Fill :: "float32 \<Rightarrow> VoxelGrid \<Rightarrow> VoxelGrid" where
  "Fill value vg =
     (let value' = math32_Min f32_1 (math32_Max f32_0 value)
      in vg\<lparr>voxels := Fill_loop value' [0..<length (voxels vg)] (voxels vg)\<rparr>)"

text \<open>
  Modelled from the spec: the generator of Go's \<open>math/rand\<close> (\<open>rand.NewSource\<close>,
  \<open>rand.New\<close> and the method \<open>Float32\<close>) is not part of the repository. It is a
  parameter: a state made from the seed alone, and a step that returns the next
  \<open>float32\<close> with the next state. The spec's words for it are "a reproducible generator,
  not wall-clock entropy", each draw "from \<open>[0,1)\<close>".
\<close>

record 's generator =
  rand_New :: "int64 \<Rightarrow> 's"
  rand_Float32 :: "'s \<Rightarrow> float32 \<times> 's"

definition unit_interval :: "float32 \<Rightarrow> bool" where
  "unit_interval f = (f32_le f32_0 f \<and> f32_lt f f32_1)"

definition draws_in_unit_interval :: "'s generator \<Rightarrow> bool" where
  "draws_in_unit_interval gen = (\<forall>r. unit_interval (fst (rand_Float32 gen r)))"

fun Randomize_loop ::
    "('s \<Rightarrow> float32 \<times> 's) \<Rightarrow> nat list \<Rightarrow> 's \<times> Voxel list \<Rightarrow> 's \<times> Voxel list" where
  "Randomize_loop step [] (r, vs) = (r, vs)"
| "Randomize_loop step (i # js) (r, vs) =
     (case step r of (f, r') \<Rightarrow> Randomize_loop step js (r', vs[i := f]))"

definition Randomize :: "'s generator \<Rightarrow> int64 \<Rightarrow> VoxelGrid \<Rightarrow> VoxelGrid" where
  "Randomize gen seed vg =
     (let r = rand_New gen seed
      in vg\<lparr>voxels :=
           snd (Randomize_loop (rand_Float32 gen) [0..<length (voxels vg)] (r, voxels vg))\<rparr>)"

fun HighPass_loop :: "float32 \<Rightarrow> nat list \<Rightarrow> Voxel list \<Rightarrow> Voxel list" where
  "HighPass_loop tolerance [] vs = vs"
| "HighPass_loop tolerance (i # js) vs =
     (let v = vs ! i;
          vs0 = vs[i := f32_0]
      in HighPass_loop tolerance js (if f32_gt v tolerance then vs0[i := f32_1] else vs0))"

definition HighPass :: "float32 \<Rightarrow> VoxelGrid \<Rightarrow> VoxelGrid" where
  "HighPass tolerance vg =
     vg\<lparr>voxels := HighPass_loop tolerance [0..<length (voxels vg)] (voxels vg)\<rparr>"

type_synonym point = "float32 \<times> float32 \<times> float32"

fun VertexPoints_loop :: "VoxelGrid \<Rightarrow> nat list \<Rightarrow> point list \<Rightarrow> fault + point list" where
  "VertexPoints_loop vg [] points = Inr points"
| "VertexPoints_loop vg (i # js) points =
     (if f32_lt (voxels vg ! i) f32_half then VertexPoints_loop vg js points
      else case getCoordinate vg (word_of_nat i) of
             Inl e \<Rightarrow> Inl e
           | Inr (x, y, z) \<Rightarrow>
               (let res = f32_of_uint (resolution vg)
                in VertexPoints_loop vg js
                     (points @ [(f32_div (f32_of_uint x) res,
                                 f32_div (f32_of_uint y) res,
                                 f32_div (f32_of_uint z) res)])))"

definition VertexPoints :: "VoxelGrid \<Rightarrow> fault + point list" where
  "VertexPoints vg = VertexPoints_loop vg [0..<length (voxels vg)] []"

text \<open>\<open>Mesh\<close> has an empty body in the source (\<open>// TODO: implement this function\<close>): it
  takes no iso-value, changes nothing and returns nothing.\<close>

definition Mesh :: "VoxelGrid \<Rightarrow> unit" where
  "Mesh vg = ()"

text \<open>
  The invariant of the data model: the slice holds exactly \<open>w * h * d\<close> cells, counted
  without wrap-around, and its length is a Go \<open>int\<close>.
\<close>

definition grid_ok :: "VoxelGrid \<Rightarrow> bool" where
  "grid_ok vg =
     (case counts vg of (w, h, d) \<Rightarrow>
        length (voxels vg) = unat w * unat h * unat d \<and> length (voxels vg) < 2 ^ 63)"

section \<open>Definitions used to state the properties\<close>

text \<open>The specification's \<open>clamp(v, lo, hi)\<close>, written with comparisons only: \<open>lo\<close> for
  a value below \<open>lo\<close>, \<open>hi\<close> for a value above \<open>hi\<close>, the value itself otherwise.\<close>

definition clamp :: "float32 \<Rightarrow> float32 \<Rightarrow> float32 \<Rightarrow> float32" where
  "clamp v lo hi = (if f32_lt v lo then lo else if f32_gt v hi then hi else v)"

text \<open>Two slices of one length that hold the same values at the indices in \<open>A\<close>.\<close>

definition agree_on :: "nat set \<Rightarrow> 'a list \<Rightarrow> 'a list \<Rightarrow> bool" where
  "agree_on A vs ws = (length vs = length ws \<and> (\<forall>i \<in> A. i < length vs \<longrightarrow> vs ! i = ws ! i))"

text \<open>The point that \<open>VertexPoints\<close> appends for the cell of index \<open>i\<close>: the coordinates
  as \<open>getCoordinate\<close> computes them, each divided by the resolution.\<close>

definition cell_point :: "VoxelGrid \<Rightarrow> nat \<Rightarrow> point" where
  "cell_point vg i =
     (case counts vg of (w, h, d) \<Rightarrow>
        let j = word_of_nat i :: uint; res = f32_of_uint (resolution vg)
        in (f32_div (f32_of_uint (j div d div h mod w)) res,
            f32_div (f32_of_uint (j div d mod h)) res,
            f32_div (f32_of_uint (j mod d)) res))"

text \<open>A platform and a generator to run the model on: the platform converts every
  \<open>float32\<close> that does not fit to 0 and allocates up to \<open>2 ^ 46\<close> cells; the generator
  counts up from its seed and draws \<open>0\<close> and \<open>0.5\<close> in turn.\<close>

definition sample_platform :: platform where
  "sample_platform = \<lparr>uint_of_other = (\<lambda>f. 0), make_limit = 2 ^ 46\<rparr>"

definition counter_generator :: "nat generator" where
  "counter_generator =
     \<lparr>rand_New = unat,
      rand_Float32 = (\<lambda>r. (if even r then f32_0 else f32_half, Suc r))\<rparr>"

section \<open>Evaluating the model\<close>

lemmas f32_eval =
  f32_mul_def f32_div_def f32_of_uint_def uint_of_f32_def
  math32_Ceil_def math32_Abs_def math32_Min_def math32_Max_def
  math32_IsInf_def math32_IsNaN_def math32_Signbit_def
  f32_1_def f32_0_def f32_half_def uvnan_def uvinf_def uvneginf_def
  f32_sign_def f32_nan_def f32_inf_def f32_finite_def f32_expo_def f32_frac_def
  f32_units_def f32_key_def f32_lt_def f32_gt_def f32_eq_def f32_le_def
  f32_round_def round_half_even_def f32_pack_def

lemmas word_eval = word_le_nat_alt word_less_nat_alt

lemma bit_length_0 [simp]: "bit_length 0 = 0"
  by (simp add: bit_length.simps)

lemma bit_length_1 [simp]: "bit_length 1 = 1" "bit_length (Suc 0) = 1"
  by (simp_all add: bit_length.simps)

lemma bit_length_numeral [simp]:
  "bit_length (numeral k) = Suc (bit_length (numeral k div 2))"
  by (subst bit_length.simps) simp

text \<open>The rounding agrees with IEEE-754 on sample values: \<open>float32(3) = 3.0\<close>,
  \<open>float32(2^24 + 1) = 2^24\<close> (a tie, to even), \<open>1.0 / 3.0 = 0x3EAAAAAB\<close>,
  \<open>1.5 * 1.5 = 2.25\<close>, \<open>Ceil(1.5) = 2.0\<close>.\<close>

lemma f32_of_uint_0: "f32_of_uint 0 = f32_0"
  by (simp add: f32_eval)

lemma f32_of_uint_1: "f32_of_uint 1 = f32_1"
  by (simp add: f32_eval)

lemma f32_of_uint_3: "f32_of_uint 3 = 0x40400000"
  by (simp add: f32_eval)

lemma f32_of_uint_tie: "f32_of_uint 16777217 = 0x4B800000"
  by (simp add: f32_eval)

lemma f32_div_1_3: "f32_div f32_1 0x40400000 = 0x3EAAAAAB"
  by (simp add: f32_eval)

lemma f32_mul_sample: "f32_mul 0x3FC00000 0x3FC00000 = 0x40100000"
  by (simp add: f32_eval)

lemma math32_Ceil_sample: "math32_Ceil 0x3FC00000 = 0x40000000"
  by (simp add: f32_eval)

lemma f32_div_0_1: "f32_div f32_0 f32_1 = f32_0"
  by (simp add: f32_eval)

lemma f32_div_1_1: "f32_div f32_1 f32_1 = f32_1"
  by (simp add: f32_eval)

lemma f32_lt_half: "\<not> f32_lt f32_1 f32_half" "f32_lt f32_0 f32_half"
  by (simp_all add: f32_eval)

section \<open>Facts about the float operations\<close>

lemma f32_consts [simp]:
  "f32_key f32_0 = 0" "f32_key f32_1 = 2 ^ 149" "f32_key uvinf = 2 ^ 277"
  "\<not> f32_nan f32_0" "\<not> f32_nan f32_1" "\<not> f32_nan uvinf" "f32_nan uvnan"
  "\<not> f32_inf f32_0" "\<not> f32_inf f32_1" "\<not> f32_sign f32_0" "\<not> f32_sign f32_1"
  by (simp_all add: f32_eval)

lemma f32_key_sign: "f32_sign v \<Longrightarrow> f32_key v \<le> 0" "\<not> f32_sign v \<Longrightarrow> 0 \<le> f32_key v"
  by (simp_all add: f32_key_def)

lemma f32_inf_key: "f32_inf v \<Longrightarrow> f32_key v = (if f32_sign v then - (2 ^ 277) else 2 ^ 277)"
  by (simp add: f32_inf_def f32_key_def f32_units_def)

lemma f32_inf_not_nan: "f32_inf v \<Longrightarrow> \<not> f32_nan v"
  by (simp add: f32_inf_def f32_nan_def)

lemma f32_finite_not_special: "f32_finite x \<Longrightarrow> \<not> f32_nan x \<and> \<not> f32_inf x"
  by (simp add: f32_finite_def f32_nan_def f32_inf_def)

text \<open>The clamp of \<open>Fill\<close>, \<open>math32.Min(1, math32.Max(0, value))\<close>, case by case.\<close>

lemma clamp_nan:
  "f32_nan v \<Longrightarrow> math32_Min f32_1 (math32_Max f32_0 v) = uvnan"
  by (auto simp: math32_Max_def math32_Min_def math32_IsInf_def math32_IsNaN_def
      dest: f32_inf_not_nan)

lemma Max_0_cases:
  assumes "\<not> f32_nan v"
  shows "math32_Max f32_0 v = (if f32_inf v \<and> \<not> f32_sign v then uvinf
           else if f32_key v \<le> 0 then f32_0 else v)"
  using assms f32_key_sign [of v] f32_inf_key [of v]
  by (auto simp: math32_Max_def math32_IsInf_def math32_IsNaN_def math32_Signbit_def
      f32_eq_def f32_gt_def f32_lt_def)

lemma Min_1_cases:
  assumes "\<not> f32_nan m" "0 \<le> f32_key m"
  shows "math32_Min f32_1 m = (if 2 ^ 149 < f32_key m then f32_1 else m)"
  using assms f32_key_sign [of m] f32_inf_key [of m]
  by (auto simp: math32_Min_def math32_IsInf_def math32_IsNaN_def math32_Signbit_def
      f32_eq_def f32_gt_def f32_lt_def)

lemma clamp_cases:
  assumes "\<not> f32_nan v"
  shows "math32_Min f32_1 (math32_Max f32_0 v)
     = (if f32_key v \<le> 0 then f32_0 else if 2 ^ 149 < f32_key v then f32_1 else v)"
proof -
  have pos_inf: "2 ^ 149 < f32_key v" if "f32_inf v" "\<not> f32_sign v"
    using that by (simp add: f32_inf_key)
  show ?thesis
    using assms pos_inf by (auto simp: Max_0_cases Min_1_cases)
qed

lemma clamp_value:
  assumes "\<not> f32_nan v"
  shows "f32_eq (math32_Min f32_1 (math32_Max f32_0 v)) (clamp v f32_0 f32_1)"
  using assms by (auto simp: clamp_cases clamp_def f32_eq_def f32_lt_def f32_gt_def)

lemma clamp_bits:
  assumes "\<not> f32_nan v" "\<not> f32_eq v f32_0"
  shows "math32_Min f32_1 (math32_Max f32_0 v) = clamp v f32_0 f32_1"
  using assms by (auto simp: clamp_cases clamp_def f32_eq_def f32_lt_def f32_gt_def)

lemma clamp_samples:
  "math32_Min f32_1 (math32_Max f32_0 0x3FC00000) = f32_1"
  "math32_Min f32_1 (math32_Max f32_0 f32_1) = f32_1"
  by (simp_all add: f32_eval)

text \<open>With a resolution of 0 every finite extent gives the voxel count 0.\<close>

lemma f32_mul_zero:
  assumes "f32_finite x"
  shows "f32_mul x f32_0 = (if f32_sign x then 0x80000000 else 0)"
proof -
  have z: "f32_units f32_0 = 0"
    by (simp add: f32_eval)
  have r: "f32_round s 0 k = (if s then 0x80000000 else 0)" for s k
    by (simp add: f32_round_def round_half_even_def f32_pack_def)
  show ?thesis
    using f32_finite_not_special [OF assms] by (simp add: f32_mul_def z r)
qed

lemma dimension_zero_resolution:
  assumes "f32_finite x"
  shows "uint_of_f32 other (math32_Ceil (math32_Abs (f32_mul x (f32_of_uint 0)))) = 0"
proof -
  have a: "math32_Abs (f32_mul x (f32_of_uint 0)) = 0"
    using f32_mul_zero [OF assms] by (simp add: f32_of_uint_0 math32_Abs_def)
  have c: "math32_Ceil 0 = 0"
    by (simp add: f32_eval)
  have u: "uint_of_f32 other 0 = 0"
    by (simp add: f32_eval)
  show ?thesis
    by (simp add: a c u)
qed

section \<open>The index of a coordinate\<close>

lemma index_bound:
  fixes W H D X Y Z :: nat
  assumes "X < W" "Y < H" "Z < D"
  shows "W * H * Z + W * Y + X < W * H * D"
proof -
  have "W * Y + X < W * Y + W" using assms by simp
  also have "\<dots> = W * Suc Y" by simp
  also have "\<dots> \<le> W * H" using assms by (intro mult_le_mono2) simp
  finally have a: "W * Y + X < W * H" .
  have "W * H * Z + W * Y + X < W * H * Z + W * H" using a by simp
  also have "\<dots> = W * H * Suc Z" by simp
  also have "\<dots> \<le> W * H * D" using assms by (intro mult_le_mono2) simp
  finally show ?thesis .
qed

lemma index_inj:
  fixes W H X Y Z X' Y' Z' :: nat
  assumes "X < W" "Y < H" "X' < W" "Y' < H"
    and eq: "W * H * Z + W * Y + X = W * H * Z' + W * Y' + X'"
  shows "X = X' \<and> Y = Y' \<and> Z = Z'"
proof -
  have e: "W * (H * Z + Y) + X = W * (H * Z' + Y') + X'"
    using eq by (simp add: algebra_simps)
  have "(W * (H * Z + Y) + X) mod W = X" "(W * (H * Z' + Y') + X') mod W = X'"
    using assms by simp_all
  with e have x: "X = X'" by simp
  have "(W * (H * Z + Y) + X) div W = H * Z + Y" "(W * (H * Z' + Y') + X') div W = H * Z' + Y'"
    using assms by simp_all
  with e have f: "H * Z + Y = H * Z' + Y'" by simp
  have "(H * Z + Y) mod H = Y" "(H * Z' + Y') mod H = Y'"
    using assms by simp_all
  with f have y: "Y = Y'" by simp
  have "(H * Z + Y) div H = Z" "(H * Z' + Y') div H = Z'"
    using assms by simp_all
  with f have "Z = Z'" by simp
  with x y show ?thesis by simp
qed

text \<open>Without wrap-around the 64-bit sum is the sum of the natural numbers.\<close>

lemma unat_index:
  fixes w h d x y z :: uint
  assumes "unat w * unat h * unat z + unat w * unat y + unat x < 2 ^ 64"
  shows "unat ((w * h * z) + (w * y) + x) = unat w * unat h * unat z + unat w * unat y + unat x"
proof -
  define N where "N = unat w * unat h * unat z + unat w * unat y + unat x"
  have "(w * h * z) + (w * y) + x = word_of_nat N"
    by (simp add: N_def)
  moreover have "unat (word_of_nat N :: uint) = N"
    using assms unfolding N_def [symmetric] by (subst unat_of_nat) simp
  ultimately show ?thesis
    by (simp add: N_def)
qed

lemma getIndex_ok:
  assumes ok: "grid_ok vg" and c: "counts vg = (w, h, d)"
    and v: "x < w" "y < h" "z < d"
  shows "getIndex vg x y z = Inr ((w * h * z) + (w * y) + x)"
    and "unat ((w * h * z) + (w * y) + x) = unat w * unat h * unat z + unat w * unat y + unat x"
    and "unat ((w * h * z) + (w * y) + x) < length (voxels vg)"
proof -
  show "getIndex vg x y z = Inr ((w * h * z) + (w * y) + x)"
    using c v by (simp add: getIndex_def not_le)
  have len: "length (voxels vg) = unat w * unat h * unat d" "length (voxels vg) < 2 ^ 63"
    using ok c by (simp_all add: grid_ok_def)
  have b: "unat w * unat h * unat z + unat w * unat y + unat x < unat w * unat h * unat d"
    using v by (intro index_bound) (simp_all add: word_less_nat_alt)
  then have "unat w * unat h * unat z + unat w * unat y + unat x < 2 ^ 64"
    using len by simp
  then show u: "unat ((w * h * z) + (w * y) + x) = unat w * unat h * unat z + unat w * unat y + unat x"
    by (rule unat_index)
  show "unat ((w * h * z) + (w * y) + x) < length (voxels vg)"
    using u b len by simp
qed

lemma getIndex_inj:
  assumes ok: "grid_ok vg" and c: "counts vg = (w, h, d)"
    and v: "x < w" "y < h" "z < d" and v': "x' < w" "y' < h" "z' < d"
    and eq: "(w * h * z) + (w * y) + x = (w * h * z') + (w * y') + x'"
  shows "x = x' \<and> y = y' \<and> z = z'"
proof -
  have "unat w * unat h * unat z + unat w * unat y + unat x
      = unat w * unat h * unat z' + unat w * unat y' + unat x'"
    using getIndex_ok(2) [OF ok c v] getIndex_ok(2) [OF ok c v'] eq by simp
  then have "unat x = unat x' \<and> unat y = unat y' \<and> unat z = unat z'"
    using v v' by (intro index_inj [where W = "unat w" and H = "unat h"]) (simp_all add: word_less_nat_alt)
  then show ?thesis by (simp add: word_unat_eq_iff)
qed

section \<open>The loops over the cells\<close>

lemma Fill_loop_length [simp]: "length (Fill_loop v js vs) = length vs"
  by (induction js arbitrary: vs) simp_all

lemma Fill_loop_nth:
  "i < length vs \<Longrightarrow> Fill_loop v js vs ! i = (if i \<in> set js then v else vs ! i)"
proof (induction js arbitrary: vs)
  case Nil
  then show ?case by simp
next
  case (Cons j js)
  then show ?case by (simp add: nth_list_update)
qed

lemma Fill_loop_all: "n = length vs \<Longrightarrow> Fill_loop v [0..<n] vs = replicate n v"
  by (rule nth_equalityI) (simp_all add: Fill_loop_nth)

lemma voxels_Fill:
  "voxels (Fill value vg)
     = replicate (length (voxels vg)) (math32_Min f32_1 (math32_Max f32_0 value))"
  by (simp add: Fill_def Fill_loop_all)

lemma Get_Fill:
  assumes ok: "grid_ok vg" and c: "counts vg = (w, h, d)"
    and v: "x < w" "y < h" "z < d"
  shows "Get (Fill value vg) x y z = Inr (math32_Min f32_1 (math32_Max f32_0 value))"
proof -
  have "getIndex (Fill value vg) x y z = Inr ((w * h * z) + (w * y) + x)"
    using c v by (simp add: getIndex_def Fill_def not_le)
  then show ?thesis
    using getIndex_ok(3) [OF ok c v] by (simp add: Get_def voxels_Fill)
qed

lemma HighPass_loop_length [simp]: "length (HighPass_loop t js vs) = length vs"
  by (induction js arbitrary: vs) (simp_all add: Let_def)

lemma HighPass_loop_nth:
  "distinct js \<Longrightarrow> i < length vs \<Longrightarrow>
   HighPass_loop t js vs ! i
     = (if i \<in> set js then (if f32_gt (vs ! i) t then f32_1 else f32_0) else vs ! i)"
proof (induction js arbitrary: vs)
  case Nil
  then show ?case by simp
next
  case (Cons j js)
  show ?case
  proof (cases "i = j")
    case True
    with Cons show ?thesis by (simp add: Let_def)
  next
    case False
    with Cons show ?thesis by (simp add: Let_def)
  qed
qed

lemma Randomize_loop_length [simp]:
  "length (snd (Randomize_loop step js (r, vs))) = length vs"
  by (induction js arbitrary: r vs) (simp_all split: prod.splits)

text \<open>The loop of \<open>Randomize\<close> reads no cell: from two slices that agree on \<open>A\<close> it
  leaves the same generator state and slices that agree on \<open>A\<close> and on every index
  visited.\<close>

lemma Randomize_loop_agree:
  "agree_on A vs ws \<Longrightarrow>
   fst (Randomize_loop step js (r, vs)) = fst (Randomize_loop step js (r, ws))
   \<and> agree_on (A \<union> set js) (snd (Randomize_loop step js (r, vs)))
        (snd (Randomize_loop step js (r, ws)))"
proof (induction js arbitrary: r vs ws A)
  case Nil
  then show ?case by simp
next
  case (Cons j js)
  obtain f r' where s: "step r = (f, r')" by (cases "step r")
  have "vs[j := f] ! i = ws[j := f] ! i" if "i < length vs" "i \<in> insert j A" for i
    using that Cons.prems by (cases "i = j") (auto simp: agree_on_def)
  then have "agree_on (insert j A) (vs[j := f]) (ws[j := f])"
    using Cons.prems by (simp add: agree_on_def)
  from Cons.IH [OF this, of r'] show ?case
    by (simp add: s)
qed

lemma Randomize_loop_same_length:
  assumes "length vs = length ws"
  shows "snd (Randomize_loop step [0..<length vs] (r, vs))
       = snd (Randomize_loop step [0..<length ws] (r, ws))"
proof -
  have "agree_on {} vs ws"
    using assms by (simp add: agree_on_def)
  from Randomize_loop_agree [OF this, of step "[0..<length vs]" r]
  have "agree_on {0..<length vs} (snd (Randomize_loop step [0..<length vs] (r, vs)))
          (snd (Randomize_loop step [0..<length vs] (r, ws)))"
    by simp
  then show ?thesis
    using assms by (auto simp: agree_on_def intro: nth_equalityI)
qed

lemma Randomize_loop_range:
  assumes "\<And>r. P (fst (step r))"
  shows "\<forall>i \<in> A. i < length vs \<longrightarrow> P (vs ! i) \<Longrightarrow>
   \<forall>i \<in> A \<union> set js. i < length vs \<longrightarrow> P (snd (Randomize_loop step js (r, vs)) ! i)"
proof (induction js arbitrary: r vs A)
  case Nil
  then show ?case by simp
next
  case (Cons j js)
  obtain f r' where s: "step r = (f, r')" by (cases "step r")
  have f: "P f" using assms [of r] s by simp
  have "P (vs[j := f] ! i)" if "i < length vs" "i \<in> insert j A" for i
    using that Cons.prems f by (cases "i = j") auto
  then have "\<forall>i \<in> insert j A. i < length (vs[j := f]) \<longrightarrow> P (vs[j := f] ! i)"
    by simp
  from Cons.IH [OF this, of r'] show ?case
    by (simp add: s)
qed

lemma grid_ok_length:
  "grid_ok g1 \<Longrightarrow> grid_ok g2 \<Longrightarrow> counts g1 = counts g2 \<Longrightarrow> length (voxels g1) = length (voxels g2)"
  by (auto simp: grid_ok_def split: prod.splits)

lemma counter_generator_draws: "draws_in_unit_interval counter_generator"
  by (simp add: draws_in_unit_interval_def counter_generator_def unit_interval_def f32_eval)

section \<open>The invariant\<close>

text \<open>\<open>NewVoxelGrid\<close> establishes the invariant unless the number of cells wraps around,
  and \<open>Set\<close>, \<open>Fill\<close>, \<open>Randomize\<close> and \<open>HighPass\<close> keep it.\<close>

lemma unat_product:
  fixes w h d :: uint
  assumes "unat w * unat h * unat d < 2 ^ 64"
  shows "unat (w * h * d) = unat w * unat h * unat d"
proof -
  define N where "N = unat w * unat h * unat d"
  have "w * h * d = word_of_nat N"
    by (simp add: N_def)
  moreover have "unat (word_of_nat N :: uint) = N"
    using assms unfolding N_def [symmetric] by (subst unat_of_nat) simp
  ultimately show ?thesis
    by (simp add: N_def)
qed

lemma grid_ok_NewVoxelGrid:
  assumes n: "NewVoxelGrid pf width height depth res = Inr vg"
    and c: "counts vg = (w, h, d)" and b: "unat w * unat h * unat d < 2 ^ 63"
  shows "grid_ok vg"
proof -
  have "unat w * unat h * unat d < 2 ^ 64"
    using b by simp
  then have u: "unat (w * h * d) = unat w * unat h * unat d"
    by (rule unat_product)
  show ?thesis
    using n c b u by (auto simp: NewVoxelGrid_def Let_def grid_ok_def split: if_splits)
qed

lemma grid_ok_Fill: "grid_ok vg \<Longrightarrow> grid_ok (Fill val vg)"
  by (simp add: grid_ok_def Fill_def)

lemma grid_ok_HighPass: "grid_ok vg \<Longrightarrow> grid_ok (HighPass t vg)"
  by (simp add: grid_ok_def HighPass_def)

lemma grid_ok_Randomize: "grid_ok vg \<Longrightarrow> grid_ok (Randomize gen seed vg)"
  by (simp add: grid_ok_def Randomize_def)

lemma grid_ok_Set: "grid_ok vg \<Longrightarrow> Set vg x y z vox = Inr vg' \<Longrightarrow> grid_ok vg'"
  by (auto simp: grid_ok_def Set_def split: sum.splits if_splits)

text \<open>
  Two calls lead out of the invariant. \<open>Copy\<close> returns the dimensions with no cell. And
  when the number of cells wraps around, \<open>NewVoxelGrid\<close> allocates the wrapped number:
  with the extents \<open>2^32\<close>, \<open>2^32\<close>, \<open>1.0\<close> and the resolution 1 the grid has
  \<open>2^64 mod 2^64 = 0\<close> cells, and \<open>Get\<close> at the valid coordinate \<open>(0,0,0)\<close> runs into
  the bounds check of the slice.
\<close>

lemma Copy_eq: "Copy vg = \<lparr>resolution = 0, counts = counts vg, voxels = []\<rparr>"
  by (simp add: Copy_def copy_builtin_def)

lemma NewVoxelGrid_wraps:
  "NewVoxelGrid sample_platform 0x4F800000 0x4F800000 f32_1 1
     = Inr \<lparr>resolution = 1, counts = (0x100000000, 0x100000000, 1), voxels = []\<rparr>"
  "\<not> grid_ok \<lparr>resolution = 1, counts = (0x100000000, 0x100000000, 1), voxels = []\<rparr>"
  by (simp_all add: NewVoxelGrid_def sample_platform_def grid_ok_def f32_eval)

lemma Get_faults_after_wrap:
  "Get \<lparr>resolution = 1, counts = (0x100000000, 0x100000000, 1), voxels = []\<rparr> 0 0 0
     = Inl (IndexOutOfRange 0 0)"
  by (simp add: Get_def getIndex_def word_eval)

text \<open>On any grid, a call of \<open>Set\<close> that returns has written the one cell at the index of
  the coordinate.\<close>

lemma Set_returns:
  assumes "Set vg x y z vox = Inr vg'"
  shows "\<exists>j. getIndex vg x y z = Inr j \<and> unat j < length (voxels vg)
           \<and> vg' = vg\<lparr>voxels := (voxels vg)[unat j := vox]\<rparr>
           \<and> Get vg' x y z = Inr vox"
  using assms by (auto simp: Set_def Get_def getIndex_def split: sum.splits if_splits prod.splits)

section \<open>What \<open>getCoordinate\<close> and \<open>VertexPoints\<close> compute\<close>

lemma getCoordinate_cell:
  assumes ok: "grid_ok vg" and c: "counts vg = (w, h, d)" and i: "i < length (voxels vg)"
  shows "getCoordinate vg (word_of_nat i)
       = Inr (word_of_nat i div d div h mod w, word_of_nat i div d mod h, word_of_nat i mod d)"
proof -
  have len: "length (voxels vg) = unat w * unat h * unat d" "length (voxels vg) < 2 ^ 63"
    using ok c by (simp_all add: grid_ok_def)
  have "unat w * unat h * unat d \<noteq> 0"
  proof
    assume "unat w * unat h * unat d = 0"
    with len i show False by simp
  qed
  then have "unat w \<noteq> 0" "unat h \<noteq> 0" "unat d \<noteq> 0"
    by simp_all
  then have nz: "w \<noteq> 0" "h \<noteq> 0" "d \<noteq> 0"
    by auto
  have "i < 2 ^ 64" "length (voxels vg) < 2 ^ 64"
    using len(2) i by simp_all
  then have "unat (word_of_nat i :: uint) = i"
    "unat (word_of_nat (length (voxels vg)) :: uint) = length (voxels vg)"
    by (simp_all add: unat_of_nat)
  then have "\<not> (word_of_nat (length (voxels vg)) :: uint) < word_of_nat i"
    using i by (simp add: word_less_nat_alt)
  then show ?thesis
    using c nz by (simp add: getCoordinate_def divmod_uint_def)
qed

text \<open>On a grid with no empty dimension \<open>getCoordinate\<close> faults exactly for an index
  above the number of cells.\<close>

lemma getCoordinate_fault_iff:
  assumes "counts vg = (w, h, d)" "w \<noteq> 0" "h \<noteq> 0" "d \<noteq> 0"
  shows "isl (getCoordinate vg index) \<longleftrightarrow> word_of_nat (length (voxels vg)) < index"
  using assms by (simp add: getCoordinate_def divmod_uint_def)

lemma VertexPoints_loop_eq:
  assumes ok: "grid_ok vg" and js: "\<forall>i \<in> set js. i < length (voxels vg)"
  shows "VertexPoints_loop vg js points
       = Inr (points @ map (cell_point vg) (filter (\<lambda>i. \<not> f32_lt (voxels vg ! i) f32_half) js))"
  using js
proof (induction js arbitrary: points)
  case Nil
  then show ?case by simp
next
  case (Cons j js)
  obtain w h d where c: "counts vg = (w, h, d)"
    by (cases "counts vg")
  have g: "getCoordinate vg (word_of_nat j)
       = Inr (word_of_nat j div d div h mod w, word_of_nat j div d mod h, word_of_nat j mod d)"
    using Cons.prems by (intro getCoordinate_cell [OF ok c]) simp
  show ?case
    using Cons g c by (simp add: cell_point_def Let_def)
qed

text \<open>On a grid that satisfies the invariant \<open>VertexPoints\<close> does not fault: it returns, in
  ascending index order, one point for every cell whose value is not below \<open>0.5\<close> (a NaN
  is not below \<open>0.5\<close>).\<close>

lemma VertexPoints_eq:
  assumes "grid_ok vg"
  shows "VertexPoints vg
       = Inr (map (cell_point vg)
           (filter (\<lambda>i. \<not> f32_lt (voxels vg ! i) f32_half) [0..<length (voxels vg)]))"
  using VertexPoints_loop_eq [OF assms, of "[0..<length (voxels vg)]" "[]"]
  by (simp add: VertexPoints_def)

section \<open>The claims of the specification\<close>

text \<open>
  Claim C1 (index and coordinate are inverse to each other). \<open>getIndex\<close> computes
  \<open>w*h*z + w*y + x\<close>, but \<open>getCoordinate\<close> takes the index apart in the order depth,
  height, width: \<open>z = i mod d\<close>, \<open>y = (i div d) mod h\<close>, \<open>x = (i div d div h) mod w\<close>.
  On the 2 x 2 x 2 grid the coordinate \<open>(1,0,0)\<close> has index 1, index 1 is converted to
  \<open>(0,0,1)\<close>, and \<open>(0,0,1)\<close> has index 4: neither round trip returns its input.
\<close>

theorem getCoordinate_not_inverse_of_getIndex:
  "getIndex \<lparr>resolution = 1, counts = (2, 2, 2),
      voxels = [f32_0, f32_0, f32_0, f32_0, f32_0, f32_0, f32_0, f32_0]\<rparr> 1 0 0 = Inr 1
   \<and> getCoordinate \<lparr>resolution = 1, counts = (2, 2, 2),
      voxels = [f32_0, f32_0, f32_0, f32_0, f32_0, f32_0, f32_0, f32_0]\<rparr> 1 = Inr (0, 0, 1)
   \<and> getIndex \<lparr>resolution = 1, counts = (2, 2, 2),
      voxels = [f32_0, f32_0, f32_0, f32_0, f32_0, f32_0, f32_0, f32_0]\<rparr> 0 0 1 = Inr 4"
  by (simp add: getIndex_def getCoordinate_def divmod_uint_def word_eval)

text \<open>
  Claim C2 (\<open>Copy\<close> returns an independent grid with the same dimensions, resolution and
  contents). \<open>Copy\<close> keeps the dimensions only: the resolution of the result is 0, and
  the builtin \<open>copy\<close> into the \<open>nil\<close> slice of the new grid copies no cell. The copy of a
  1 x 1 x 1 grid of resolution 1 holding \<open>1.0\<close> has resolution 0 and no cells.
\<close>

theorem Copy_loses_resolution_and_cells:
  "Copy \<lparr>resolution = 1, counts = (1, 1, 1), voxels = [f32_1]\<rparr>
     = \<lparr>resolution = 0, counts = (1, 1, 1), voxels = []\<rparr>"
  by (simp add: Copy_def copy_builtin_def)

text \<open>
  Claim C3 (after \<open>Fill(1.0)\<close> or \<open>Fill(0.0)\<close> the surface extracted at iso-value 0.5 has
  no triangle) has no statement here: \<open>Mesh\<close> is the only trace of the surface extraction
  in the source, and its body is empty.
\<close>

text \<open>
  Claim C4, as the code has it: \<open>NewVoxelGrid\<close> does not check the resolution. With
  \<open>resolution == 0\<close> and finite extents every product \<open>extent * float32(0)\<close> is a zero, so
  the call returns, without a fault, the grid of resolution 0 with the dimensions
  \<open>(0,0,0)\<close> and no cell.
\<close>

theorem NewVoxelGrid_resolution_0:
  assumes "f32_finite width" "f32_finite height" "f32_finite depth"
  shows "NewVoxelGrid pf width height depth 0
           = Inr \<lparr>resolution = 0, counts = (0, 0, 0), voxels = []\<rparr>"
  using assms by (simp add: NewVoxelGrid_def dimension_zero_resolution)

text \<open>The extents \<open>1.0\<close>, \<open>-2.5\<close> and \<open>0.5\<close> are finite.\<close>

theorem NewVoxelGrid_resolution_0_witness:
  "f32_finite f32_1 \<and> f32_finite 0xC0200000 \<and> f32_finite f32_half
   \<and> NewVoxelGrid sample_platform f32_1 0xC0200000 f32_half 0
        = Inr \<lparr>resolution = 0, counts = (0, 0, 0), voxels = []\<rparr>"
proof -
  have f: "f32_finite f32_1" "f32_finite 0xC0200000" "f32_finite f32_half"
    by (simp_all add: f32_eval)
  show ?thesis
    using f NewVoxelGrid_resolution_0 [OF f, of sample_platform] by simp
qed

text \<open>
  Claim C4 as stated (construction fails with a fault when \<open>resolution == 0\<close>, for every
  choice of extents) does not hold: with the extents \<open>1.0\<close>, \<open>1.0\<close>, \<open>1.0\<close> and the
  resolution 0 the call returns a grid.
\<close>

theorem NewVoxelGrid_resolution_0_returns:
  "NewVoxelGrid sample_platform f32_1 f32_1 f32_1 0
     = Inr \<lparr>resolution = 0, counts = (0, 0, 0), voxels = []\<rparr>"
  by (simp add: NewVoxelGrid_def sample_platform_def f32_eval)

text \<open>
  Claim C5 (\<open>getCoordinate\<close> faults exactly when the index is at least \<open>w*h*d\<close>). The
  guard of \<open>getCoordinate\<close> is \<open>index > len(vg.voxels)\<close>: on the 2 x 2 x 2 grid the index
  8, equal to the number of cells, passes it and a coordinate is returned; the first
  index that faults is 9.
\<close>

theorem getCoordinate_accepts_index_at_size:
  "getCoordinate \<lparr>resolution = 1, counts = (2, 2, 2),
      voxels = [f32_0, f32_0, f32_0, f32_0, f32_0, f32_0, f32_0, f32_0]\<rparr> 8 = Inr (0, 0, 0)
   \<and> getCoordinate \<lparr>resolution = 1, counts = (2, 2, 2),
      voxels = [f32_0, f32_0, f32_0, f32_0, f32_0, f32_0, f32_0, f32_0]\<rparr> 9
        = Inl (IndexExceeds 9)"
  by (simp add: getCoordinate_def divmod_uint_def word_eval)

text \<open>
  Claim C6, as the code has it (\<open>Fill\<close> clamps every value that is not a NaN, and is
  idempotent). On a grid that satisfies the invariant, \<open>Get\<close> at a valid coordinate
  after \<open>Fill(value)\<close> returns \<open>math32.Min(1, math32.Max(0, value))\<close>. For a value
  that is not a NaN this result equals \<open>clamp(value, 0, 1)\<close> under Go's \<open>==\<close>, and has
  the same bits unless the value is a zero (\<open>Fill(-0.0)\<close> stores \<open>+0.0\<close>); for a NaN
  it is a NaN. \<open>Fill(1.5)\<close> leaves any grid as \<open>Fill(1.0)\<close> does, and \<open>Fill\<close> applied
  twice with one value equals \<open>Fill\<close> applied once.
\<close>

theorem Fill_clamps_every_cell:
  "(grid_ok vg \<and> counts vg = (w, h, d) \<and> x < w \<and> y < h \<and> z < d
      \<longrightarrow> Get (Fill val vg) x y z = Inr (math32_Min f32_1 (math32_Max f32_0 val)))
   \<and> (\<not> f32_nan val
      \<longrightarrow> f32_eq (math32_Min f32_1 (math32_Max f32_0 val)) (clamp val f32_0 f32_1))
   \<and> (\<not> f32_nan val \<and> \<not> f32_eq val f32_0
      \<longrightarrow> math32_Min f32_1 (math32_Max f32_0 val) = clamp val f32_0 f32_1)
   \<and> (f32_nan val \<longrightarrow> f32_nan (math32_Min f32_1 (math32_Max f32_0 val)))
   \<and> Fill 0x3FC00000 vg = Fill f32_1 vg
   \<and> Fill val (Fill val vg) = Fill val vg
   \<and> (grid_ok vg \<and> counts vg = (w, h, d) \<and> x < w \<and> y < h \<and> z < d \<and> \<not> f32_nan val
      \<longrightarrow> (\<exists>r. Get (Fill val vg) x y z = Inr r \<and> f32_eq r (clamp val f32_0 f32_1)))
   \<and> (grid_ok vg \<and> counts vg = (w, h, d) \<and> x < w \<and> y < h \<and> z < d \<and> f32_nan val
      \<longrightarrow> (\<exists>r. Get (Fill val vg) x y z = Inr r \<and> f32_nan r))"
proof -
  have "Fill 0x3FC00000 vg = Fill f32_1 vg"
    by (simp add: Fill_def clamp_samples)
  moreover have "Fill val (Fill val vg) = Fill val vg"
    by (simp add: Fill_def Fill_loop_all)
  ultimately show ?thesis
    by (simp add: Get_Fill clamp_value clamp_bits clamp_nan)
qed

text \<open>On the 2 x 2 x 1 grid, \<open>Fill(1.5)\<close> and then \<open>Get(1,1,0)\<close> gives \<open>1.0\<close>, which is
  \<open>clamp(1.5, 0, 1)\<close>.\<close>

theorem Fill_clamps_every_cell_witness:
  "grid_ok \<lparr>resolution = 1, counts = (2, 2, 1), voxels = [f32_0, f32_1, f32_0, f32_0]\<rparr>
   \<and> (1 :: uint) < 2 \<and> (0 :: uint) < 1
   \<and> \<not> f32_nan 0x3FC00000 \<and> \<not> f32_eq 0x3FC00000 f32_0
   \<and> Get (Fill 0x3FC00000
        \<lparr>resolution = 1, counts = (2, 2, 1), voxels = [f32_0, f32_1, f32_0, f32_0]\<rparr>) 1 1 0
        = Inr f32_1
   \<and> clamp 0x3FC00000 f32_0 f32_1 = f32_1"
proof -
  let ?g = "\<lparr>resolution = 1, counts = (2, 2, 1), voxels = [f32_0, f32_1, f32_0, f32_0]\<rparr>"
  have h: "grid_ok ?g" "counts ?g = (2, 2, 1)" "(1 :: uint) < 2" "(0 :: uint) < 1"
    by (simp_all add: grid_ok_def word_eval)
  have n: "\<not> f32_nan 0x3FC00000" "\<not> f32_eq 0x3FC00000 f32_0"
    by (simp_all add: f32_eval)
  note t = Fill_clamps_every_cell [where vg = ?g and w = 2 and h = 2 and d = 1
      and x = 1 and y = 1 and z = 0 and val = "0x3FC00000"]
  have g: "Get (Fill 0x3FC00000 ?g) 1 1 0 = Inr f32_1"
    using t [THEN conjunct1] h by (simp add: clamp_samples)
  have "f32_1 = clamp 0x3FC00000 f32_0 f32_1"
    using t [THEN conjunct2, THEN conjunct2, THEN conjunct1] n by (simp add: clamp_samples)
  then have c: "clamp 0x3FC00000 f32_0 f32_1 = f32_1"
    by (rule sym)
  show ?thesis
    using h n g c by simp
qed

text \<open>
  Claim C6 as stated (for every float value \<open>v\<close>, \<open>Get\<close> after \<open>Fill(v)\<close> returns
  \<open>clamp(v,0,1)\<close>) does not hold for a NaN. On the 2 x 2 x 1 grid, after \<open>Fill\<close> of the
  NaN \<open>0x7FC00000\<close> the cell at \<open>(1,1,0)\<close> holds the NaN of \<open>math32.NaN()\<close>: it differs
  from \<open>clamp(v,0,1)\<close>, which is \<open>v\<close> itself, in its bits, it is not equal to it under
  Go's \<open>==\<close>, and it lies outside \<open>[0,1]\<close>.
\<close>

theorem Fill_NaN_not_clamped:
  "Get (Fill 0x7FC00000
      \<lparr>resolution = 1, counts = (2, 2, 1), voxels = [f32_0, f32_1, f32_0, f32_0]\<rparr>) 1 1 0
      = Inr uvnan
   \<and> clamp 0x7FC00000 f32_0 f32_1 = 0x7FC00000
   \<and> uvnan \<noteq> clamp 0x7FC00000 f32_0 f32_1
   \<and> \<not> f32_eq uvnan (clamp 0x7FC00000 f32_0 f32_1)
   \<and> \<not> f32_le f32_0 uvnan
   \<and> \<not> f32_le uvnan f32_1"
proof -
  let ?g = "\<lparr>resolution = 1, counts = (2, 2, 1), voxels = [f32_0, f32_1, f32_0, f32_0]\<rparr>"
  have n: "f32_nan 0x7FC00000"
    by (simp add: f32_eval)
  have h: "grid_ok ?g" "counts ?g = (2, 2, 1)" "(1 :: uint) < 2" "(0 :: uint) < 1"
    by (simp_all add: grid_ok_def word_eval)
  have g: "Get (Fill 0x7FC00000 ?g) 1 1 0 = Inr uvnan"
    using Get_Fill [OF h(1) h(2) h(3) h(3) h(4), of "0x7FC00000"] clamp_nan [OF n] by simp
  have c: "clamp 0x7FC00000 f32_0 f32_1 = 0x7FC00000"
    using n by (simp add: clamp_def f32_lt_def f32_gt_def)
  have d: "uvnan \<noteq> (0x7FC00000 :: float32)"
    by (simp add: uvnan_def)
  have e: "\<not> f32_eq uvnan 0x7FC00000" "\<not> f32_le f32_0 uvnan" "\<not> f32_le uvnan f32_1"
    by (simp_all add: f32_eq_def f32_le_def)
  show ?thesis
    using g c d e by simp
qed

text \<open>
  Claim C7 (\<open>Randomize\<close> is deterministic in its seed, and every cell lies in \<open>[0,1)\<close>).
  For every generator and seed, \<open>Randomize\<close> leaves the same cell contents in any two
  grids of the same dimensions that satisfy the invariant (more generally, in any two
  grids with the same number of cells), whatever they held before;
  it keeps the length, the dimensions and the resolution; and when every draw of the
  generator lies in \<open>[0,1)\<close>, so does every cell afterwards.
\<close>

theorem Randomize_deterministic:
  "(grid_ok g1 \<and> grid_ok g2 \<and> counts g1 = counts g2
      \<longrightarrow> voxels (Randomize gen seed g1) = voxels (Randomize gen seed g2))
   \<and> (length (voxels g1) = length (voxels g2)
      \<longrightarrow> voxels (Randomize gen seed g1) = voxels (Randomize gen seed g2))
   \<and> (draws_in_unit_interval gen
      \<longrightarrow> (\<forall>i < length (voxels g1). unit_interval (voxels (Randomize gen seed g1) ! i)))
   \<and> length (voxels (Randomize gen seed g1)) = length (voxels g1)
   \<and> counts (Randomize gen seed g1) = counts g1
   \<and> resolution (Randomize gen seed g1) = resolution g1"
proof -
  have a': "voxels (Randomize gen seed g1) = voxels (Randomize gen seed g2)"
    if "length (voxels g1) = length (voxels g2)"
    using Randomize_loop_same_length [OF that] by (simp add: Randomize_def)
  have a: "voxels (Randomize gen seed g1) = voxels (Randomize gen seed g2)"
    if "grid_ok g1" "grid_ok g2" "counts g1 = counts g2"
    using a' grid_ok_length [OF that] by simp
  have b: "unit_interval (voxels (Randomize gen seed g1) ! i)"
    if d: "draws_in_unit_interval gen" and i: "i < length (voxels g1)" for i
  proof -
    have "\<forall>i \<in> {} \<union> set [0..<length (voxels g1)]. i < length (voxels g1) \<longrightarrow>
        unit_interval (snd (Randomize_loop (rand_Float32 gen) [0..<length (voxels g1)]
          (rand_New gen seed, voxels g1)) ! i)"
      using d by (intro Randomize_loop_range) (simp_all add: draws_in_unit_interval_def)
    then show ?thesis
      using i by (simp add: Randomize_def)
  qed
  have "length (voxels (Randomize gen seed g1)) = length (voxels g1)"
    "counts (Randomize gen seed g1) = counts g1"
    "resolution (Randomize gen seed g1) = resolution g1"
    by (simp_all add: Randomize_def)
  then show ?thesis
    using a a' b by blast
qed

text \<open>Two 2 x 2 x 1 grids of different contents and resolutions, randomized with the
  seed 42 by the counting generator, both hold \<open>0, 0.5, 0, 0.5\<close>.\<close>

theorem Randomize_deterministic_witness:
  "grid_ok \<lparr>resolution = 1, counts = (2, 2, 1), voxels = [f32_0, f32_1, f32_0, f32_0]\<rparr>
   \<and> grid_ok \<lparr>resolution = 2, counts = (2, 2, 1), voxels = [f32_1, f32_1, f32_half, f32_0]\<rparr>
   \<and> draws_in_unit_interval counter_generator
   \<and> voxels (Randomize counter_generator 42
        \<lparr>resolution = 1, counts = (2, 2, 1), voxels = [f32_0, f32_1, f32_0, f32_0]\<rparr>)
     = voxels (Randomize counter_generator 42
        \<lparr>resolution = 2, counts = (2, 2, 1), voxels = [f32_1, f32_1, f32_half, f32_0]\<rparr>)
   \<and> voxels (Randomize counter_generator 42
        \<lparr>resolution = 1, counts = (2, 2, 1), voxels = [f32_0, f32_1, f32_0, f32_0]\<rparr>)
     = [f32_0, f32_half, f32_0, f32_half]
   \<and> unit_interval (voxels (Randomize counter_generator 42
        \<lparr>resolution = 1, counts = (2, 2, 1), voxels = [f32_0, f32_1, f32_0, f32_0]\<rparr>) ! 1)"
proof -
  let ?g1 = "\<lparr>resolution = 1, counts = (2, 2, 1), voxels = [f32_0, f32_1, f32_0, f32_0]\<rparr>"
  let ?g2 = "\<lparr>resolution = 2, counts = (2, 2, 1), voxels = [f32_1, f32_1, f32_half, f32_0]\<rparr>"
  have h: "grid_ok ?g1" "grid_ok ?g2" "counts ?g1 = counts ?g2"
    by (simp_all add: grid_ok_def)
  have run: "voxels (Randomize counter_generator 42 ?g1) = [f32_0, f32_half, f32_0, f32_half]"
    by (simp add: Randomize_def counter_generator_def)
  have t: "voxels (Randomize counter_generator 42 ?g1) = voxels (Randomize counter_generator 42 ?g2)"
    "\<forall>i < length (voxels ?g1). unit_interval (voxels (Randomize counter_generator 42 ?g1) ! i)"
    using h counter_generator_draws
      Randomize_deterministic [where ?g1.0 = ?g1 and ?g2.0 = ?g2 and gen = counter_generator
        and seed = 42]
    by blast+
  have "unit_interval (voxels (Randomize counter_generator 42 ?g1) ! 1)"
    using t(2) by simp
  then show ?thesis
    using h counter_generator_draws run t(1) by simp
qed

text \<open>
  Claim C8 (\<open>HighPass\<close> binarizes with a strict comparison). After \<open>HighPass(tolerance)\<close>
  every cell holds \<open>1\<close> if its previous value was greater than the tolerance and \<open>0\<close>
  otherwise; a cell whose previous value equals the tolerance (under Go's \<open>==\<close>, or bit
  for bit) holds \<open>0\<close>. The number of cells, the dimensions and the resolution stay.
\<close>

theorem HighPass_binarizes:
  "length (voxels (HighPass tolerance vg)) = length (voxels vg)
   \<and> counts (HighPass tolerance vg) = counts vg
   \<and> resolution (HighPass tolerance vg) = resolution vg
   \<and> (\<forall>i < length (voxels vg).
         voxels (HighPass tolerance vg) ! i
           = (if f32_gt (voxels vg ! i) tolerance then f32_1 else f32_0))
   \<and> (\<forall>i < length (voxels vg).
         f32_eq (voxels vg ! i) tolerance \<or> voxels vg ! i = tolerance
           \<longrightarrow> voxels (HighPass tolerance vg) ! i = f32_0)"
  by (auto simp: HighPass_def HighPass_loop_nth f32_gt_def f32_lt_def f32_eq_def)

text \<open>With the tolerance \<open>0.5\<close>, the cell holding \<open>0.5\<close> becomes \<open>0\<close> and the cell holding the
  next \<open>float32\<close> above \<open>0.5\<close> becomes \<open>1\<close>.\<close>

theorem HighPass_binarizes_witness:
  "(0 :: nat) < length [f32_half, f32_1, f32_0, 0x3F000001 :: float32]
   \<and> (3 :: nat) < length [f32_half, f32_1, f32_0, 0x3F000001 :: float32]
   \<and> f32_eq f32_half f32_half \<and> f32_gt 0x3F000001 f32_half
   \<and> voxels (HighPass f32_half
        \<lparr>resolution = 1, counts = (2, 2, 1),
           voxels = [f32_half, f32_1, f32_0, 0x3F000001]\<rparr>) ! 0 = f32_0
   \<and> voxels (HighPass f32_half
        \<lparr>resolution = 1, counts = (2, 2, 1),
           voxels = [f32_half, f32_1, f32_0, 0x3F000001]\<rparr>) ! 3 = f32_1"
proof -
  let ?g = "\<lparr>resolution = 1, counts = (2, 2, 1), voxels = [f32_half, f32_1, f32_0, 0x3F000001]\<rparr>"
  have c: "f32_eq f32_half f32_half" "f32_gt 0x3F000001 f32_half"
    by (simp_all add: f32_eval)
  have t: "\<forall>i < length (voxels ?g). voxels (HighPass f32_half ?g) ! i
             = (if f32_gt (voxels ?g ! i) f32_half then f32_1 else f32_0)"
    "\<forall>i < length (voxels ?g). f32_eq (voxels ?g ! i) f32_half \<or> voxels ?g ! i = f32_half
             \<longrightarrow> voxels (HighPass f32_half ?g) ! i = f32_0"
    using HighPass_binarizes [of f32_half ?g] by blast+
  have "voxels (HighPass f32_half ?g) ! 0 = f32_0"
    using t(2) c(1) by simp
  moreover have "voxels (HighPass f32_half ?g) ! 3 = f32_1"
    using t(1) c(2) by simp
  ultimately show ?thesis
    using c by simp
qed

text \<open>
  Claim C9 (\<open>VertexPoints\<close> returns, for every cell at \<open>(x,y,z)\<close> with a value of at least
  0.5, the point \<open>(x/resolution, y/resolution, z/resolution)\<close>). On the 2 x 2 x 1 grid
  of resolution 1 whose only set cell is the one at \<open>(1,0,0)\<close>, of index 1, the point
  returned is \<open>(0.0, 1.0, 0.0)\<close>: \<open>VertexPoints\<close> takes the coordinates from
  \<open>getCoordinate\<close>, which is not the inverse of \<open>getIndex\<close>.
\<close>

theorem VertexPoints_wrong_point:
  "getIndex \<lparr>resolution = 1, counts = (2, 2, 1),
      voxels = [f32_0, f32_1, f32_0, f32_0]\<rparr> 1 0 0 = Inr 1
   \<and> VertexPoints \<lparr>resolution = 1, counts = (2, 2, 1),
      voxels = [f32_0, f32_1, f32_0, f32_0]\<rparr> = Inr [(f32_0, f32_1, f32_0)]"
  by (simp add: VertexPoints_def getIndex_def getCoordinate_def divmod_uint_def word_eval
      f32_of_uint_0 f32_of_uint_1 f32_div_0_1 f32_div_1_1 f32_lt_half)

text \<open>
  Claim C10 (\<open>Set\<close> changes one cell and does not clamp). On a grid that satisfies the
  invariant, \<open>Set\<close> at a valid coordinate returns without a fault; the dimensions, the
  resolution and the number of cells stay; \<open>Get\<close> at the same coordinate returns the
  value as it was given, whatever it is; \<open>Get\<close> at every other coordinate returns what
  it returned before; and every cell but the one at index \<open>w*h*z + w*y + x\<close> is
  unchanged.
\<close>

theorem Set_changes_one_cell:
  assumes ok: "grid_ok vg" and c: "counts vg = (w, h, d)"
    and v: "x < w" "y < h" "z < d"
  shows "\<exists>vg'. Set vg x y z vox = Inr vg'
           \<and> counts vg' = counts vg \<and> resolution vg' = resolution vg
           \<and> length (voxels vg') = length (voxels vg)
           \<and> Get vg' x y z = Inr vox
           \<and> (\<forall>x' y' z'. (x', y', z') \<noteq> (x, y, z) \<longrightarrow> Get vg' x' y' z' = Get vg x' y' z')
           \<and> (\<forall>i < length (voxels vg). i \<noteq> unat ((w * h * z) + (w * y) + x)
                 \<longrightarrow> voxels vg' ! i = voxels vg ! i)"
proof -
  let ?i = "(w * h * z) + (w * y) + x"
  let ?vg' = "vg\<lparr>voxels := (voxels vg)[unat ?i := vox]\<rparr>"
  note gi = getIndex_ok [OF ok c v]
  have s: "Set vg x y z vox = Inr ?vg'"
    using gi(1) gi(3) by (simp add: Set_def)
  have c': "counts ?vg' = (w, h, d)"
    using c by simp
  have gi': "getIndex ?vg' x y z = Inr ?i"
    using c' v by (simp add: getIndex_def not_le)
  have g: "Get ?vg' x y z = Inr vox"
    using gi' gi(3) by (simp add: Get_def)
  have other: "Get ?vg' x' y' z' = Get vg x' y' z'" if ne: "(x', y', z') \<noteq> (x, y, z)" for x' y' z'
  proof (cases "x' < w \<and> y' < h \<and> z' < d")
    case True
    then have v': "x' < w" "y' < h" "z' < d" by simp_all
    let ?j = "(w * h * z') + (w * y') + x'"
    have "?i \<noteq> ?j"
      using getIndex_inj [OF ok c v v'] ne by auto
    then have "unat ?i \<noteq> unat ?j"
      by (simp add: word_unat_eq_iff)
    moreover have "getIndex vg x' y' z' = Inr ?j" "getIndex ?vg' x' y' z' = Inr ?j"
      using c c' v' by (simp_all add: getIndex_def not_le)
    ultimately show ?thesis
      by (simp add: Get_def)
  next
    case False
    then have "w \<le> x' \<or> h \<le> y' \<or> d \<le> z'"
      by (auto simp: not_less)
    then show ?thesis
      using c c' by (simp add: Get_def getIndex_def)
  qed
  show ?thesis
    using s g other by (intro exI [of _ ?vg']) simp
qed

text \<open>On the 2 x 2 x 1 grid, \<open>Set(1,0,0, 2.0)\<close> succeeds; \<open>Get(1,0,0)\<close> then returns \<open>2.0\<close>,
  and \<open>Get(0,1,0)\<close> still returns \<open>0\<close>.\<close>

theorem Set_changes_one_cell_witness:
  "grid_ok \<lparr>resolution = 1, counts = (2, 2, 1), voxels = [f32_0, f32_1, f32_0, f32_0]\<rparr>
   \<and> (1 :: uint) < 2 \<and> (0 :: uint) < 2 \<and> (0 :: uint) < 1
   \<and> (\<exists>vg'. Set \<lparr>resolution = 1, counts = (2, 2, 1), voxels = [f32_0, f32_1, f32_0, f32_0]\<rparr>
               1 0 0 0x40000000 = Inr vg'
            \<and> Get vg' 1 0 0 = Inr 0x40000000
            \<and> Get vg' 0 1 0 = Inr f32_0)"
proof -
  let ?g = "\<lparr>resolution = 1, counts = (2, 2, 1), voxels = [f32_0, f32_1, f32_0, f32_0]\<rparr>"
  have ok: "grid_ok ?g"
    by (simp add: grid_ok_def)
  have v: "(1 :: uint) < 2" "(0 :: uint) < 2" "(0 :: uint) < 1"
    by (simp_all add: word_eval)
  have c: "counts ?g = (2, 2, 1)"
    by simp
  obtain vg' where s: "Set ?g 1 0 0 0x40000000 = Inr vg'"
      and g: "Get vg' 1 0 0 = Inr 0x40000000"
      and o: "\<forall>x' y' z'. (x', y', z') \<noteq> (1, 0, 0) \<longrightarrow> Get vg' x' y' z' = Get ?g x' y' z'"
    using Set_changes_one_cell [OF ok c v, of "0x40000000"] by blast
  have "Get vg' 0 1 0 = Get ?g 0 1 0"
    using o by simp
  also have "\<dots> = Inr f32_0"
    by (simp add: Get_def getIndex_def word_eval)
  finally show ?thesis
    using ok v s g by blast
qed

end
